theory Spec2Isabelle
  imports Complex_Main "HOL-Library.Char_ord" "HOL-Library.List_Lexorder" "HOL-Library.Sublist"
begin

section \<open>The CORBA server of the path planner: hppciServer.cpp\<close>

text \<open>
  The class \<open>ChppciServer\<close> keeps two registries of factories (steering methods and
  distance functions), brings up the ORB and the single-threaded POA, binds three servants
  in the naming service and processes requests. The development embeds its member
  functions one by one. A member function takes the object it is called on (a record of
  the data members) and, where it touches anything outside the object, the world: the
  static pointer \<open>s_hppciServer\<close>, the heap of factory objects and the log of the calls
  made into CORBA and into \<open>ChppciServerPrivate\<close>. Diagnostics written to \<open>std::cerr\<close> and
  \<open>std::cout\<close> are not part of the model.
\<close>

subsection \<open>Pointers, statuses and results\<close>

type_synonym addr = nat

datatype ptr = NULL | Ptr addr

text \<open>The two values of \<open>ktStatus\<close> that the file uses.\<close>

datatype ktStatus = KD_OK | KD_ERROR

text \<open>
  What a call into code outside this file does: it returns a value or it throws.
\<close>

datatype 'a outcome = Returns 'a | Throws

text \<open>
  What a member function of this file does: it returns normally, it lets an exception
  escape (\<open>Raised\<close>, with the state that the exception leaves behind), it dereferences a
  pointer that designates no object (\<open>Undefined\<close>), or it never returns (\<open>Blocked\<close>, the
  ORB's run loop).
\<close>

datatype ('a, 's) result = Normal 'a | Raised 's | Undefined | Blocked

subsection \<open>The factory objects and the heap\<close>

text \<open>
  The three factories of each kind that the file instantiates, with their constructor
  arguments, and a constructor for the subclasses that a caller of
  \<open>addSteeringMethodFactory\<close> or \<open>addDistanceFactory\<close> may bring.
\<close>

datatype CkwsPlusSteeringMethodFactory =
    CkwsPlusLinearSteeringMethodFactory
  | CkwsPlusRSSteeringMethodFactory real
  | CkwsPlusFlicSteeringMethodFactory
  | OtherSteeringMethodFactory nat

datatype CkwsPlusDistanceFactory =
    CkwsPlusLinearDistanceFactory
  | CkwsPlusRSDistanceFactory real
  | CkwsPlusApproxFlicDistanceFactory
  | OtherDistanceFactory nat

datatype heap_obj =
    SteeringFactory CkwsPlusSteeringMethodFactory
  | DistanceFactory CkwsPlusDistanceFactory

subsection \<open>CORBA references, names and the calls that leave this file\<close>

datatype objref = nil | Objref nat

datatype servant = robotServant | obstacleServant | problemServant

datatype ThreadPolicyValue = ORB_CTRL_MODEL | SINGLE_THREAD_MODEL | MAIN_THREAD_MODEL

text \<open>\<open>CosNaming::NameComponent\<close>; \<open>CosNaming::Name\<close> is a sequence of them.\<close>

record NameComponent =
  id_ :: string
  kind :: string

type_synonym Name = "NameComponent list"

type_synonym request = nat

datatype call =
    ORB_init "string list"
  | resolve_initial_references objref string
  | POA_narrow objref
  | create_thread_policy objref ThreadPolicyValue
  | create_POA objref string objref "objref list"
  | ThreadPolicy_destroy objref
  | createAndActivateServers
  | servant_this servant
  | createHppContext
  | bindObjectToName objref Name
  | servant_remove_ref servant
  | the_POAManager objref
  | POAManager_activate objref
  | deactivateAndDestroyServers
  | ORB_shutdown objref bool
  | ORB_run objref

record world =
  s_hppciServer :: ptr
  heap :: "addr \<rightharpoonup> heap_obj"
  next_addr :: addr
  released :: "addr list"
  trace :: "call list"
  pending :: "request list"
  performed :: "request list"

text \<open>
  \<open>new T\<close> takes the next free address; \<open>delete p\<close> does nothing on the null pointer
  and otherwise frees the address and appends it to the log \<open>released\<close>, so that an address
  deleted twice shows twice in the log.
\<close>

definition cpp_new :: "heap_obj \<Rightarrow> world \<Rightarrow> addr \<times> world" where
  "cpp_new x w =
     (next_addr w, w\<lparr>heap := (heap w)(next_addr w \<mapsto> x), next_addr := Suc (next_addr w)\<rparr>)"

definition cpp_delete :: "ptr \<Rightarrow> world \<Rightarrow> world" where
  "cpp_delete p w =
     (case p of
        NULL \<Rightarrow> w
      | Ptr a \<Rightarrow> w\<lparr>heap := (heap w)(a := None), released := released w @ [a]\<rparr>)"

subsection \<open>\<open>std::map<std::string, T*>\<close>\<close>

text \<open>
  The map is the list of its entries in the order of iteration, which is the order of the
  keys (\<open>std::less<std::string>\<close>: lexicographic on the bytes). \<open>count\<close> is the number of
  entries with the key, 0 or 1. \<open>operator[]\<close> inserts a value-initialised entry (the null
  pointer) when the key is absent and gives a reference to the entry's value:
  \<open>map_subscript\<close> is the map after the lookup, \<open>referent\<close> reads the reference and
  \<open>store\<close> writes through it.
\<close>

type_synonym std_map = "(string \<times> ptr) list"

fun map_count :: "std_map \<Rightarrow> string \<Rightarrow> nat" where
  "map_count [] k = 0"
| "map_count ((k', v) # m) k = (if k' = k then 1 else map_count m k)"

fun map_insert :: "string \<Rightarrow> ptr \<Rightarrow> std_map \<Rightarrow> std_map" where
  "map_insert k v [] = [(k, v)]"
| "map_insert k v ((k', v') # m) =
     (if k < k' then (k, v) # (k', v') # m else (k', v') # map_insert k v m)"

definition map_subscript :: "string \<Rightarrow> std_map \<Rightarrow> std_map" where
  "map_subscript k m = (if map_count m k = 0 then map_insert k NULL m else m)"

fun referent :: "string \<Rightarrow> std_map \<Rightarrow> ptr" where
  "referent k [] = NULL"
| "referent k ((k', v) # m) = (if k' = k then v else referent k m)"

fun store :: "string \<Rightarrow> ptr \<Rightarrow> std_map \<Rightarrow> std_map" where
  "store k v [] = []"
| "store k v ((k', v') # m) = (if k' = k then (k', v) # m else (k', v') # store k v m)"

subsection \<open>The object\<close>

record ChppciServerPrivate =
  orb :: objref
  poa :: objref

record ChppciServer =
  hppPlanner :: ptr
  attPrivate :: "ChppciServerPrivate option"
  attMapSteeringMethodFactory :: std_map
  attMapDistanceFunctionFactory :: std_map

subsection \<open>Steering method factories\<close>

definition steeringMethodFactoryAlreadySet :: "ChppciServer \<Rightarrow> string \<Rightarrow> bool" where
  "steeringMethodFactoryAlreadySet this inName =
     (if map_count (attMapSteeringMethodFactory this) inName = 1 then True else False)"

definition addSteeringMethodFactory ::
  "ChppciServer \<Rightarrow> string \<Rightarrow> ptr \<Rightarrow> bool \<times> ChppciServer" where
  "addSteeringMethodFactory this inName inSteeringMethodFactory =
     (if steeringMethodFactoryAlreadySet this inName then (False, this)
      else (True, this\<lparr>attMapSteeringMethodFactory :=
              store inName inSteeringMethodFactory
                (map_subscript inName (attMapSteeringMethodFactory this))\<rparr>))"

text \<open>
  \<open>makeSteeringMethod\<close> is a virtual member of the factory, defined outside this file: it
  is the parameter \<open>mk\<close>. The shared pointer it returns is \<open>None\<close> when empty, as the
  default-constructed \<open>result\<close> is.
\<close>

definition createSteeringMethod ::
  "(CkwsPlusSteeringMethodFactory \<Rightarrow> bool \<Rightarrow> 'sm option outcome) \<Rightarrow>
   ChppciServer \<Rightarrow> world \<Rightarrow> string \<Rightarrow> bool \<Rightarrow>
   ('sm option \<times> ChppciServer, ChppciServer) result" where
  "createSteeringMethod mk this w inName inOriented =
     (let result = None in
      if steeringMethodFactoryAlreadySet this inName then
        (let m = map_subscript inName (attMapSteeringMethodFactory this);
             this' = this\<lparr>attMapSteeringMethodFactory := m\<rparr>
         in case referent inName m of
              NULL \<Rightarrow> Undefined
            | Ptr a \<Rightarrow>
               (case heap w a of
                  Some (SteeringFactory f) \<Rightarrow>
                    (case mk f inOriented of
                       Returns r \<Rightarrow> Normal (r, this')
                     | Throws \<Rightarrow> Raised this')
                | _ \<Rightarrow> Undefined))
      else Normal (result, this))"

subsection \<open>Distance function factories\<close>

definition distanceFactoryAlreadySet :: "ChppciServer \<Rightarrow> string \<Rightarrow> bool" where
  "distanceFactoryAlreadySet this inName =
     (if map_count (attMapDistanceFunctionFactory this) inName = 1 then True else False)"

definition addDistanceFactory ::
  "ChppciServer \<Rightarrow> string \<Rightarrow> ptr \<Rightarrow> bool \<times> ChppciServer" where
  "addDistanceFactory this inName inDistanceFunctionFactory =
     (if distanceFactoryAlreadySet this inName then (False, this)
      else (True, this\<lparr>attMapDistanceFunctionFactory :=
              store inName inDistanceFunctionFactory
                (map_subscript inName (attMapDistanceFunctionFactory this))\<rparr>))"

definition createDistanceFunction ::
  "(CkwsPlusDistanceFactory \<Rightarrow> bool \<Rightarrow> 'd option outcome) \<Rightarrow>
   ChppciServer \<Rightarrow> world \<Rightarrow> string \<Rightarrow> bool \<Rightarrow>
   ('d option \<times> ChppciServer, ChppciServer) result" where
  "createDistanceFunction mk this w inName inOriented =
     (let result = None in
      if distanceFactoryAlreadySet this inName then
        (let m = map_subscript inName (attMapDistanceFunctionFactory this);
             this' = this\<lparr>attMapDistanceFunctionFactory := m\<rparr>
         in case referent inName m of
              NULL \<Rightarrow> Undefined
            | Ptr a \<Rightarrow>
               (case heap w a of
                  Some (DistanceFactory f) \<Rightarrow>
                    (case mk f inOriented of
                       Returns r \<Rightarrow> Normal (r, this')
                     | Throws \<Rightarrow> Raised this')
                | _ \<Rightarrow> Undefined))
      else Normal (result, this))"

subsection \<open>Built-in factories and their destruction\<close>

definition initMapSteeringMethodFactory :: "ChppciServer \<Rightarrow> world \<Rightarrow> ChppciServer \<times> world" where
  "initMapSteeringMethodFactory this w =
     (let (a1, w1) = cpp_new (SteeringFactory CkwsPlusLinearSteeringMethodFactory) w;
          m1 = store ''linear'' (Ptr a1)
                 (map_subscript ''linear'' (attMapSteeringMethodFactory this));
          (a2, w2) = cpp_new (SteeringFactory (CkwsPlusRSSteeringMethodFactory 1)) w1;
          m2 = store ''rs'' (Ptr a2) (map_subscript ''rs'' m1);
          (a3, w3) = cpp_new (SteeringFactory CkwsPlusFlicSteeringMethodFactory) w2;
          m3 = store ''flic'' (Ptr a3) (map_subscript ''flic'' m2)
      in (this\<lparr>attMapSteeringMethodFactory := m3\<rparr>, w3))"

definition initMapDistanceFunctionFactory :: "ChppciServer \<Rightarrow> world \<Rightarrow> ChppciServer \<times> world" where
  "initMapDistanceFunctionFactory this w =
     (let (a1, w1) = cpp_new (DistanceFactory CkwsPlusLinearDistanceFactory) w;
          m1 = store ''linear'' (Ptr a1)
                 (map_subscript ''linear'' (attMapDistanceFunctionFactory this));
          (a2, w2) = cpp_new (DistanceFactory (CkwsPlusRSDistanceFactory 1)) w1;
          m2 = store ''rs'' (Ptr a2) (map_subscript ''rs'' m1);
          (a3, w3) = cpp_new (DistanceFactory CkwsPlusApproxFlicDistanceFactory) w2;
          m3 = store ''flic'' (Ptr a3) (map_subscript ''flic'' m2)
      in (this\<lparr>attMapDistanceFunctionFactory := m3\<rparr>, w3))"

text \<open>The loop of both destroy functions: from \<open>begin()\<close> to \<open>end()\<close>, delete the value.\<close>

fun delete_each :: "std_map \<Rightarrow> world \<Rightarrow> world" where
  "delete_each [] w = w"
| "delete_each ((name, factory) # it) w = delete_each it (cpp_delete factory w)"

definition destroySteeringMethodFactories :: "ChppciServer \<Rightarrow> world \<Rightarrow> world" where
  "destroySteeringMethodFactories this w = delete_each (attMapSteeringMethodFactory this) w"

definition destroyDistanceFunctionFactories :: "ChppciServer \<Rightarrow> world \<Rightarrow> world" where
  "destroyDistanceFunctionFactories this w = delete_each (attMapDistanceFunctionFactory this) w"

subsection \<open>The environment\<close>

text \<open>
  The outcome of every call that leaves this file is given by the environment: the ORB,
  the POA, the servants and the member functions of \<open>ChppciServerPrivate\<close>. A call made
  through a reference takes the reference as its first argument, so the environment also
  says what a call through a nil reference does. \<open>run\<close> may never return (\<open>None\<close>).

  Modelled from the spec: \<open>createAndActivateServers\<close> (defined with \<open>ChppciServerPrivate\<close>,
  not in this file) is the initialization hook that "returns success/failure"; it gives a
  status, does not throw, and leaves the registries of the server it is given alone.
\<close>

record env =
  env_ORB_init :: "string list \<Rightarrow> objref outcome"
  env_resolve_initial_references :: "objref \<Rightarrow> string \<Rightarrow> objref outcome"
  env_POA_narrow :: "objref \<Rightarrow> objref outcome"
  env_create_thread_policy :: "objref \<Rightarrow> ThreadPolicyValue \<Rightarrow> objref outcome"
  env_create_POA :: "objref \<Rightarrow> string \<Rightarrow> objref \<Rightarrow> objref list \<Rightarrow> objref outcome"
  env_ThreadPolicy_destroy :: "objref \<Rightarrow> unit outcome"
  env_createAndActivateServers :: ktStatus
  env_servant_this :: "servant \<Rightarrow> objref outcome"
  env_createHppContext :: "bool outcome"
  env_bindObjectToName :: "objref \<Rightarrow> Name \<Rightarrow> bool outcome"
  env_servant_remove_ref :: "servant \<Rightarrow> unit outcome"
  env_the_POAManager :: "objref \<Rightarrow> objref outcome"
  env_POAManager_activate :: "objref \<Rightarrow> unit outcome"
  env_deactivateAndDestroyServers :: "unit outcome"
  env_ORB_shutdown :: "objref \<Rightarrow> bool \<Rightarrow> unit outcome"
  env_ORB_run :: "objref \<Rightarrow> unit outcome option"

definition log_call :: "call \<Rightarrow> world \<Rightarrow> world" where
  "log_call c w = w\<lparr>trace := trace w @ [c]\<rparr>"

text \<open>
  Modelled from the spec: the macro \<open>HPPCI_CATCH(msg, ret)\<close> of
  hppciExceptionHandlingMacros.h, which is not among the sources. Every sub-step follows
  the discipline "catch, log with a step-specific message, return an error code" and no
  sub-step throws past the boundary: whatever the \<open>try\<close> block throws is caught and the
  function returns \<open>ret\<close>; otherwise control goes on after the handler.
\<close>

definition HPPCI_CATCH :: "'a outcome \<Rightarrow> 'r \<Rightarrow> ('a \<Rightarrow> 'r) \<Rightarrow> 'r" where
  "HPPCI_CATCH tried ret continue = (case tried of Throws \<Rightarrow> ret | Returns x \<Rightarrow> continue x)"

subsection \<open>CORBA server initialization\<close>

definition initORBandServers ::
  "env \<Rightarrow> string list \<Rightarrow> ChppciServer \<Rightarrow> world \<Rightarrow>
   (ktStatus \<times> ChppciServer \<times> world, world) result" where
  "initORBandServers env argv this w =
     (case attPrivate this of
        None \<Rightarrow> Undefined
      | Some p0 \<Rightarrow> Normal
         (let w1 = log_call (ORB_init argv) w in
          HPPCI_CATCH (env_ORB_init env argv) (KD_ERROR, this, w1) (\<lambda>the_orb.
          let p1 = p0\<lparr>orb := the_orb\<rparr>;
              this1 = this\<lparr>attPrivate := Some p1\<rparr>
          in
          if the_orb = nil then (KD_ERROR, this1, w1) else
          let w2 = log_call (resolve_initial_references (orb p1) ''RootPOA'') w1 in
          HPPCI_CATCH (env_resolve_initial_references env (orb p1) ''RootPOA'')
            (KD_ERROR, this1, w2) (\<lambda>obj.
          let w3 = log_call (POA_narrow obj) w2 in
          HPPCI_CATCH (env_POA_narrow env obj) (KD_ERROR, this1, w3) (\<lambda>rootPoa.
          let w4 = log_call (create_thread_policy rootPoa MAIN_THREAD_MODEL) w3 in
          HPPCI_CATCH (env_create_thread_policy env rootPoa MAIN_THREAD_MODEL)
            (KD_ERROR, this1, w4) (\<lambda>singleThread.
          let policyList = [singleThread];
              w5 = log_call (create_POA rootPoa ''child'' nil policyList) w4
          in
          HPPCI_CATCH (env_create_POA env rootPoa ''child'' nil policyList)
            (KD_ERROR, this1, w5) (\<lambda>child.
          let p2 = p1\<lparr>poa := child\<rparr>;
              this2 = this1\<lparr>attPrivate := Some p2\<rparr>;
              w6 = log_call (ThreadPolicy_destroy singleThread) w5
          in
          HPPCI_CATCH (env_ThreadPolicy_destroy env singleThread) (KD_ERROR, this2, w6)
            (\<lambda>_.
          (env_createAndActivateServers env, this2,
           log_call createAndActivateServers w6)))))))))"

subsection \<open>Constructor, destructor and the accessor of the instance\<close>

text \<open>
  The constructor runs at the address \<open>this_addr\<close>. The status of \<open>initORBandServers\<close> is
  not looked at. A new \<open>ChppciServerPrivate\<close> holds nil references.
\<close>

definition ChppciServer_ctor ::
  "env \<Rightarrow> ptr \<Rightarrow> string list \<Rightarrow> addr \<Rightarrow> world \<Rightarrow> (ChppciServer \<times> world, world) result" where
  "ChppciServer_ctor env inHppPlanner argv this_addr w =
     (let this0 = \<lparr>hppPlanner = inHppPlanner, attPrivate = None,
                   attMapSteeringMethodFactory = [], attMapDistanceFunctionFactory = []\<rparr>;
          w1 = w\<lparr>s_hppciServer := Ptr this_addr\<rparr>;
          this1 = this0\<lparr>attPrivate := Some \<lparr>orb = nil, poa = nil\<rparr>\<rparr>
      in case initORBandServers env argv this1 w1 of
           Normal (status, this2, w2) \<Rightarrow>
             (let (this3, w3) = initMapSteeringMethodFactory this2 w2;
                  (this4, w4) = initMapDistanceFunctionFactory this3 w3
              in Normal (this4, w4))
         | Raised w' \<Rightarrow> Raised w'
         | Undefined \<Rightarrow> Undefined
         | Blocked \<Rightarrow> Blocked)"

text \<open>
  The destructor ends the object: it returns the world only. The two maps are destroyed
  with the object, which frees their nodes and not what the stored pointers designate.
\<close>

definition ChppciServer_dtor :: "env \<Rightarrow> ChppciServer \<Rightarrow> world \<Rightarrow> (world, world) result" where
  "ChppciServer_dtor env this w =
     (case attPrivate this of
        None \<Rightarrow> Undefined
      | Some p \<Rightarrow>
         (let w1 = log_call deactivateAndDestroyServers w in
          case env_deactivateAndDestroyServers env of
            Throws \<Rightarrow> Raised w1
          | Returns _ \<Rightarrow>
             (let w2 = log_call (ORB_shutdown (orb p) False) w1 in
              case env_ORB_shutdown env (orb p) False of
                Throws \<Rightarrow> Raised w2
              | Returns _ \<Rightarrow>
                 (let this1 = this\<lparr>attPrivate := None\<rparr>;
                      w3 = w2\<lparr>s_hppciServer := NULL\<rparr>
                  in Normal (destroySteeringMethodFactories this1 w3)))))"

definition getInstance :: "world \<Rightarrow> ptr" where
  "getInstance w = s_hppciServer w"

definition getHppPlanner :: "ChppciServer \<Rightarrow> ptr" where
  "getHppPlanner this = hppPlanner this"

text \<open>Before any constructor has run: statics are zero-initialised, nothing is allocated.\<close>

definition initial_world :: world where
  "initial_world = \<lparr>s_hppciServer = NULL, heap = Map.empty, next_addr = 0, released = [],
                    trace = [], pending = [], performed = []\<rparr>"

subsection \<open>Binding the servants in the naming service\<close>

text \<open>
  The whole body is one \<open>try\<close> block closed by \<open>HPPCI_CATCH(..., KD_ERROR)\<close>. The servant
  pointers are members of \<open>ChppciServerPrivate\<close> set by \<open>createAndActivateServers\<close>; what a
  call through them does is the environment's answer.
\<close>

definition startCorbaServer ::
  "env \<Rightarrow> ChppciServer \<Rightarrow> world \<Rightarrow> (ktStatus \<times> world, world) result" where
  "startCorbaServer env this w =
     (case attPrivate this of
        None \<Rightarrow> Undefined
      | Some p \<Rightarrow> Normal
         (let w1 = log_call (servant_this robotServant) w in
          HPPCI_CATCH (env_servant_this env robotServant) (KD_ERROR, w1) (\<lambda>robotObj.
          let w2 = log_call (servant_this obstacleServant) w1 in
          HPPCI_CATCH (env_servant_this env obstacleServant) (KD_ERROR, w2) (\<lambda>obstacleObj.
          let w3 = log_call (servant_this problemServant) w2 in
          HPPCI_CATCH (env_servant_this env problemServant) (KD_ERROR, w3) (\<lambda>problemObj.
          let w4 = log_call createHppContext w3 in
          HPPCI_CATCH (env_createHppContext env) (KD_ERROR, w4) (\<lambda>context.
          if \<not> context then (KD_ERROR, w4) else
          let objectName = [\<lparr>id_ = ''Robot'', kind = ''Object''\<rparr>];
              w5 = log_call (bindObjectToName robotObj objectName) w4
          in
          HPPCI_CATCH (env_bindObjectToName env robotObj objectName) (KD_ERROR, w5) (\<lambda>bound.
          if \<not> bound then (KD_ERROR, w5) else
          let w6 = log_call (servant_remove_ref robotServant) w5 in
          HPPCI_CATCH (env_servant_remove_ref env robotServant) (KD_ERROR, w6) (\<lambda>_.
          let objectName = [\<lparr>id_ = ''Obstacle'', kind = ''Object''\<rparr>];
              w7 = log_call (bindObjectToName obstacleObj objectName) w6
          in
          HPPCI_CATCH (env_bindObjectToName env obstacleObj objectName) (KD_ERROR, w7) (\<lambda>bound.
          if \<not> bound then (KD_ERROR, w7) else
          let w8 = log_call (servant_remove_ref obstacleServant) w7 in
          HPPCI_CATCH (env_servant_remove_ref env obstacleServant) (KD_ERROR, w8) (\<lambda>_.
          let objectName = [\<lparr>id_ = ''Problem'', kind = ''Object''\<rparr>];
              w9 = log_call (bindObjectToName problemObj objectName) w8
          in
          HPPCI_CATCH (env_bindObjectToName env problemObj objectName) (KD_ERROR, w9) (\<lambda>bound.
          if \<not> bound then (KD_ERROR, w9) else
          let w10 = log_call (servant_remove_ref problemServant) w9 in
          HPPCI_CATCH (env_servant_remove_ref env problemServant) (KD_ERROR, w10) (\<lambda>_.
          let w11 = log_call (the_POAManager (poa p)) w10 in
          HPPCI_CATCH (env_the_POAManager env (poa p)) (KD_ERROR, w11) (\<lambda>pman.
          let w12 = log_call (POAManager_activate pman) w11 in
          HPPCI_CATCH (env_POAManager_activate env pman) (KD_ERROR, w12) (\<lambda>_.
          (KD_OK, w12)))))))))))))))"

text \<open>The calls logged between two worlds, and what is read off them.\<close>

definition calls_since :: "world \<Rightarrow> world \<Rightarrow> call list" where
  "calls_since w w' = drop (length (trace w)) (trace w')"

fun bindings :: "call list \<Rightarrow> (objref \<times> Name) list" where
  "bindings [] = []"
| "bindings (c # cs) =
     (case c of bindObjectToName obj n \<Rightarrow> (obj, n) # bindings cs | _ \<Rightarrow> bindings cs)"

fun activations :: "call list \<Rightarrow> objref list" where
  "activations [] = []"
| "activations (c # cs) =
     (case c of POAManager_activate pman \<Rightarrow> pman # activations cs | _ \<Rightarrow> activations cs)"

text \<open>
  The state \<open>Serving\<close> of the spec: the adapter manager has been asked to activate.
\<close>

definition serving :: "world \<Rightarrow> bool" where
  "serving w = (activations (trace w) \<noteq> [])"

text \<open>
  When context creation fails, and when the binding of a servant under a name fails: the
  call throws or returns false. The binding is that of the reference which \<open>_this()\<close>
  gave for the servant.
\<close>

definition context_fails :: "env \<Rightarrow> bool" where
  "context_fails env = (env_createHppContext env \<noteq> Returns True)"

definition binding_fails :: "env \<Rightarrow> servant \<Rightarrow> string \<Rightarrow> bool" where
  "binding_fails env s role =
     (case env_servant_this env s of
        Throws \<Rightarrow> False
      | Returns obj \<Rightarrow>
          env_bindObjectToName env obj [\<lparr>id_ = role, kind = ''Object''\<rparr>] \<noteq> Returns True)"

subsection \<open>Processing requests\<close>

text \<open>
  Modelled from the spec: \<open>work_pending\<close> and \<open>perform_work\<close> of the ORB. The ORB holds
  the calls that have arrived and are not yet dispatched (\<open>pending\<close>); \<open>work_pending\<close> says
  whether there is one, \<open>perform_work\<close> dispatches one unit of work, the oldest pending
  call, which goes to \<open>performed\<close>. A call through a nil ORB reference throws.
\<close>

definition work_pending :: "objref \<Rightarrow> world \<Rightarrow> bool outcome" where
  "work_pending the_orb w = (if the_orb = nil then Throws else Returns (pending w \<noteq> []))"

definition perform_work :: "objref \<Rightarrow> world \<Rightarrow> world outcome" where
  "perform_work the_orb w =
     (if the_orb = nil then Throws
      else Returns (case pending w of
                      [] \<Rightarrow> w
                    | r # rs \<Rightarrow> w\<lparr>pending := rs, performed := performed w @ [r]\<rparr>))"

definition processRequest ::
  "env \<Rightarrow> ChppciServer \<Rightarrow> world \<Rightarrow> bool \<Rightarrow> (int \<times> world, world) result" where
  "processRequest env this w loop =
     (case attPrivate this of
        None \<Rightarrow> Undefined
      | Some p \<Rightarrow>
         (if loop then
            (let w1 = log_call (ORB_run (orb p)) w in
             case env_ORB_run env (orb p) of
               None \<Rightarrow> Blocked
             | Some Throws \<Rightarrow> Raised w1
             | Some (Returns _) \<Rightarrow> Normal (0, w1))
          else
            (case work_pending (orb p) w of
               Throws \<Rightarrow> Raised w
             | Returns is_pending \<Rightarrow>
                 if is_pending then
                   (case perform_work (orb p) w of
                      Throws \<Rightarrow> Raised w
                    | Returns w' \<Rightarrow> Normal (0, w'))
                 else Normal (0, w))))"

subsection \<open>Programs: sequences of operations on the world\<close>

text \<open>
  The operations of this file that touch the world, each with the object it is called on
  (any object: the caller holds it). The functions on the registries read and write the
  object only. A program stops at the first operation that does not return normally.
\<close>

datatype operation =
    Construct env ptr "string list" addr
  | Destruct env ChppciServer
  | StartCorbaServer env ChppciServer
  | ProcessRequest env ChppciServer bool

definition then_world :: "('a \<times> world, world) result \<Rightarrow> (world, world) result" where
  "then_world r =
     (case r of Normal (x, w) \<Rightarrow> Normal w | Raised w \<Rightarrow> Raised w | Undefined \<Rightarrow> Undefined
      | Blocked \<Rightarrow> Blocked)"

fun step :: "operation \<Rightarrow> world \<Rightarrow> (world, world) result" where
  "step (Construct env inHppPlanner argv this_addr) w =
     then_world (ChppciServer_ctor env inHppPlanner argv this_addr w)"
| "step (Destruct env this) w = ChppciServer_dtor env this w"
| "step (StartCorbaServer env this) w = then_world (startCorbaServer env this w)"
| "step (ProcessRequest env this loop) w = then_world (processRequest env this w loop)"

fun run :: "operation list \<Rightarrow> world \<Rightarrow> (world, world) result" where
  "run [] w = Normal w"
| "run (op # ops) w =
     (case step op w of
        Normal w' \<Rightarrow> run ops w'
      | Raised w' \<Rightarrow> Raised w'
      | Undefined \<Rightarrow> Undefined
      | Blocked \<Rightarrow> Blocked)"

fun is_Construct :: "operation \<Rightarrow> bool" where
  "is_Construct (Construct env inHppPlanner argv this_addr) = True"
| "is_Construct _ = False"

fun is_Destruct :: "operation \<Rightarrow> bool" where
  "is_Destruct (Destruct env this) = True"
| "is_Destruct _ = False"

subsection \<open>Environments to run the model on\<close>

text \<open>An environment in which every call succeeds, and \<open>run\<close> does not return.\<close>

definition good_env :: env where
  "good_env =
     \<lparr>env_ORB_init = (\<lambda>argv. Returns (Objref 1)),
      env_resolve_initial_references = (\<lambda>r name. Returns (Objref 2)),
      env_POA_narrow = (\<lambda>obj. Returns obj),
      env_create_thread_policy = (\<lambda>r model. Returns (Objref 3)),
      env_create_POA = (\<lambda>r name manager policies. Returns (Objref 4)),
      env_ThreadPolicy_destroy = (\<lambda>r. Returns ()),
      env_createAndActivateServers = KD_OK,
      env_servant_this =
        (\<lambda>s. Returns (case s of robotServant \<Rightarrow> Objref 10 | obstacleServant \<Rightarrow> Objref 11
                         | problemServant \<Rightarrow> Objref 12)),
      env_createHppContext = Returns True,
      env_bindObjectToName = (\<lambda>obj n. Returns True),
      env_servant_remove_ref = (\<lambda>s. Returns ()),
      env_the_POAManager = (\<lambda>r. Returns (Objref 5)),
      env_POAManager_activate = (\<lambda>r. Returns ()),
      env_deactivateAndDestroyServers = Returns (),
      env_ORB_shutdown = (\<lambda>r wait_for_completion. Returns ()),
      env_ORB_run = (\<lambda>r. None)\<rparr>"

text \<open>An object as the constructor leaves it in \<open>good_env\<close>, from the initial world.\<close>

definition example_private :: ChppciServerPrivate where
  "example_private = \<lparr>orb = Objref 1, poa = Objref 4\<rparr>"

definition example_server :: ChppciServer where
  "example_server =
     \<lparr>hppPlanner = Ptr 100, attPrivate = Some example_private,
      attMapSteeringMethodFactory = [(''flic'', Ptr 2), (''linear'', Ptr 0), (''rs'', Ptr 1)],
      attMapDistanceFunctionFactory = [(''flic'', Ptr 5), (''linear'', Ptr 3), (''rs'', Ptr 4)]\<rparr>"

text \<open>The world in which the constructor leaves that object.\<close>

definition example_world :: world where
  "example_world =
     \<lparr>s_hppciServer = Ptr 50,
      heap = [0 \<mapsto> SteeringFactory CkwsPlusLinearSteeringMethodFactory,
              1 \<mapsto> SteeringFactory (CkwsPlusRSSteeringMethodFactory 1),
              2 \<mapsto> SteeringFactory CkwsPlusFlicSteeringMethodFactory,
              3 \<mapsto> DistanceFactory CkwsPlusLinearDistanceFactory,
              4 \<mapsto> DistanceFactory (CkwsPlusRSDistanceFactory 1),
              5 \<mapsto> DistanceFactory CkwsPlusApproxFlicDistanceFactory],
      next_addr = 6, released = [],
      trace = [ORB_init [], resolve_initial_references (Objref 1) ''RootPOA'',
               POA_narrow (Objref 2), create_thread_policy (Objref 2) MAIN_THREAD_MODEL,
               create_POA (Objref 2) ''child'' nil [Objref 3],
               ThreadPolicy_destroy (Objref 3),
               createAndActivateServers],
      pending = [], performed = []\<rparr>"

text \<open>
  Factories to run the model on: the strategy built is a number that tells the factory and
  the flag apart; a factory from outside throws.
\<close>

definition example_makeSteeringMethod ::
  "CkwsPlusSteeringMethodFactory \<Rightarrow> bool \<Rightarrow> nat option outcome" where
  "example_makeSteeringMethod f oriented =
     (case f of
        CkwsPlusLinearSteeringMethodFactory \<Rightarrow> Returns (Some (if oriented then 11 else 10))
      | CkwsPlusRSSteeringMethodFactory r \<Rightarrow> Returns (Some (if oriented then 21 else 20))
      | CkwsPlusFlicSteeringMethodFactory \<Rightarrow> Returns (Some (if oriented then 31 else 30))
      | OtherSteeringMethodFactory k \<Rightarrow> Throws)"

definition example_makeDistance ::
  "CkwsPlusDistanceFactory \<Rightarrow> bool \<Rightarrow> nat option outcome" where
  "example_makeDistance f oriented =
     (case f of
        CkwsPlusLinearDistanceFactory \<Rightarrow> Returns (Some (if oriented then 41 else 40))
      | CkwsPlusRSDistanceFactory r \<Rightarrow> Returns (Some (if oriented then 51 else 50))
      | CkwsPlusApproxFlicDistanceFactory \<Rightarrow> Returns (Some (if oriented then 61 else 60))
      | OtherDistanceFactory k \<Rightarrow> Throws)"

text \<open>The example object after a factory from outside, at address 9, has been registered.\<close>

definition extended_server :: ChppciServer where
  "extended_server =
     example_server\<lparr>attMapSteeringMethodFactory :=
       [(''flic'', Ptr 2), (''linear'', Ptr 0), (''mine'', Ptr 9), (''rs'', Ptr 1)]\<rparr>"

definition extended_world :: world where
  "extended_world =
     example_world\<lparr>heap := (heap example_world)(9 \<mapsto> SteeringFactory (OtherSteeringMethodFactory 0)),
                    next_addr := 10\<rparr>"

text \<open>An environment in which the ORB cannot be initialised.\<close>

definition failing_env :: env where
  "failing_env = good_env\<lparr>env_ORB_init := (\<lambda>argv. Throws)\<rparr>"

text \<open>Environments in which the naming context cannot be created, and in which the
  binding under the name "Obstacle" is refused.\<close>

definition no_context_env :: env where
  "no_context_env = good_env\<lparr>env_createHppContext := Returns False\<rparr>"

definition obstacle_refused_env :: env where
  "obstacle_refused_env =
     good_env\<lparr>env_bindObjectToName :=
       (\<lambda>obj n. Returns (n \<noteq> [\<lparr>id_ = ''Obstacle'', kind = ''Object''\<rparr>]))\<rparr>"

text \<open>The example world with one call pending, and after the servants are bound.\<close>

definition busy_world :: world where
  "busy_world = example_world\<lparr>pending := [7]\<rparr>"

definition serving_world :: world where
  "serving_world =
     example_world\<lparr>trace := trace example_world @
       [servant_this robotServant, servant_this obstacleServant, servant_this problemServant,
        createHppContext,
        bindObjectToName (Objref 10) [\<lparr>id_ = ''Robot'', kind = ''Object''\<rparr>],
        servant_remove_ref robotServant,
        bindObjectToName (Objref 11) [\<lparr>id_ = ''Obstacle'', kind = ''Object''\<rparr>],
        servant_remove_ref obstacleServant,
        bindObjectToName (Objref 12) [\<lparr>id_ = ''Problem'', kind = ''Object''\<rparr>],
        servant_remove_ref problemServant,
        the_POAManager (Objref 4), POAManager_activate (Objref 5)]\<rparr>"

section \<open>Properties\<close>

subsection \<open>The map\<close>

lemma map_count_eq: "map_count m k = (if k \<in> fst ` set m then 1 else 0)"
  by (induction m) (auto split: if_splits)

lemma steeringMethodFactoryAlreadySet_iff:
  "steeringMethodFactoryAlreadySet this n \<longleftrightarrow> n \<in> fst ` set (attMapSteeringMethodFactory this)"
  by (simp add: steeringMethodFactoryAlreadySet_def map_count_eq)

lemma distanceFactoryAlreadySet_iff:
  "distanceFactoryAlreadySet this n \<longleftrightarrow> n \<in> fst ` set (attMapDistanceFunctionFactory this)"
  by (simp add: distanceFactoryAlreadySet_def map_count_eq)

lemma store_map_insert:
  "k \<notin> fst ` set m \<Longrightarrow> store k v (map_insert k u m) = map_insert k v m"
  by (induction m) auto

lemma set_map_insert: "set (map_insert k v m) = insert (k, v) (set m)"
  by (induction m) (auto split: if_splits)

lemma length_map_insert: "length (map_insert k v m) = Suc (length m)"
  by (induction m) auto

lemma map_of_map_insert:
  "k \<notin> fst ` set m \<Longrightarrow> map_of (map_insert k v m) = (map_of m)(k \<mapsto> v)"
  by (induction m) (auto simp: fun_eq_iff)

lemma assign_absent:
  "k \<notin> fst ` set m \<Longrightarrow> store k v (map_subscript k m) = map_insert k v m"
  by (simp add: map_subscript_def map_count_eq store_map_insert)

lemma map_subscript_present:
  "k \<in> fst ` set m \<Longrightarrow> map_subscript k m = m"
  by (simp add: map_subscript_def map_count_eq)

lemma referent_map_of:
  "referent k m = (case map_of m k of None \<Rightarrow> NULL | Some v \<Rightarrow> v)"
  by (induction m) auto

subsection \<open>Registration\<close>

text \<open>
  C1. In either registry, registering under a name that is present returns false and
  leaves the object as it is; registering under an absent name, the empty string included,
  returns true and changes nothing but the registry, which gains the one entry that maps
  the name to the factory.
\<close>

theorem registerFactory_spec:
  "(inName \<in> fst ` set (attMapSteeringMethodFactory this) \<longrightarrow>
      addSteeringMethodFactory this inName f = (False, this)) \<and>
   (inName \<notin> fst ` set (attMapSteeringMethodFactory this) \<longrightarrow>
      (\<exists>m'. addSteeringMethodFactory this inName f =
               (True, this\<lparr>attMapSteeringMethodFactory := m'\<rparr>) \<and>
            map_of m' = (map_of (attMapSteeringMethodFactory this))(inName \<mapsto> f) \<and>
            set m' = insert (inName, f) (set (attMapSteeringMethodFactory this)) \<and>
            length m' = Suc (length (attMapSteeringMethodFactory this)))) \<and>
   (inName \<in> fst ` set (attMapDistanceFunctionFactory this) \<longrightarrow>
      addDistanceFactory this inName f = (False, this)) \<and>
   (inName \<notin> fst ` set (attMapDistanceFunctionFactory this) \<longrightarrow>
      (\<exists>m'. addDistanceFactory this inName f =
               (True, this\<lparr>attMapDistanceFunctionFactory := m'\<rparr>) \<and>
            map_of m' = (map_of (attMapDistanceFunctionFactory this))(inName \<mapsto> f) \<and>
            set m' = insert (inName, f) (set (attMapDistanceFunctionFactory this)) \<and>
            length m' = Suc (length (attMapDistanceFunctionFactory this))))"
proof -
  let ?s = "attMapSteeringMethodFactory this" and ?d = "attMapDistanceFunctionFactory this"
  have "\<exists>m'. addSteeringMethodFactory this inName f =
               (True, this\<lparr>attMapSteeringMethodFactory := m'\<rparr>) \<and>
            map_of m' = (map_of ?s)(inName \<mapsto> f) \<and>
            set m' = insert (inName, f) (set ?s) \<and> length m' = Suc (length ?s)"
    if "inName \<notin> fst ` set ?s"
    using that
    by (intro exI [of _ "map_insert inName f ?s"])
      (simp add: addSteeringMethodFactory_def steeringMethodFactoryAlreadySet_iff
        assign_absent map_of_map_insert set_map_insert length_map_insert)
  moreover have "\<exists>m'. addDistanceFactory this inName f =
               (True, this\<lparr>attMapDistanceFunctionFactory := m'\<rparr>) \<and>
            map_of m' = (map_of ?d)(inName \<mapsto> f) \<and>
            set m' = insert (inName, f) (set ?d) \<and> length m' = Suc (length ?d)"
    if "inName \<notin> fst ` set ?d"
    using that
    by (intro exI [of _ "map_insert inName f ?d"])
      (simp add: addDistanceFactory_def distanceFactoryAlreadySet_iff
        assign_absent map_of_map_insert set_map_insert length_map_insert)
  moreover have "addSteeringMethodFactory this inName f = (False, this)"
    if "inName \<in> fst ` set ?s"
    using that by (simp add: addSteeringMethodFactory_def steeringMethodFactoryAlreadySet_iff)
  moreover have "addDistanceFactory this inName f = (False, this)"
    if "inName \<in> fst ` set ?d"
    using that by (simp add: addDistanceFactory_def distanceFactoryAlreadySet_iff)
  ultimately show ?thesis by blast
qed

theorem registerFactory_spec_witness:
  "''linear'' \<in> fst ` set (attMapSteeringMethodFactory example_server) \<and>
   addSteeringMethodFactory example_server ''linear'' (Ptr 7) = (False, example_server) \<and>
   ''rs'' \<in> fst ` set (attMapDistanceFunctionFactory example_server) \<and>
   addDistanceFactory example_server ''rs'' (Ptr 7) = (False, example_server) \<and>
   [] \<notin> fst ` set (attMapSteeringMethodFactory example_server) \<and>
   addSteeringMethodFactory example_server [] (Ptr 7) =
     (True, example_server\<lparr>attMapSteeringMethodFactory :=
        [([], Ptr 7), (''flic'', Ptr 2), (''linear'', Ptr 0), (''rs'', Ptr 1)]\<rparr>) \<and>
   ''mine'' \<notin> fst ` set (attMapDistanceFunctionFactory example_server) \<and>
   addDistanceFactory example_server ''mine'' (Ptr 7) =
     (True, example_server\<lparr>attMapDistanceFunctionFactory :=
        [(''flic'', Ptr 5), (''linear'', Ptr 3), (''mine'', Ptr 7), (''rs'', Ptr 4)]\<rparr>)"
  using registerFactory_spec [of "''linear''" example_server "Ptr 7"]
    registerFactory_spec [of "''rs''" example_server "Ptr 7"]
    registerFactory_spec [of "[]" example_server "Ptr 7"]
    registerFactory_spec [of "''mine''" example_server "Ptr 7"]
  by (simp add: example_server_def addSteeringMethodFactory_def addDistanceFactory_def
      steeringMethodFactoryAlreadySet_def distanceFactoryAlreadySet_def map_subscript_def)

text \<open>The example object and world are what the constructor builds.\<close>

lemma ctor_example:
  "ChppciServer_ctor good_env (Ptr 100) [] 50 initial_world = Normal (example_server, example_world)"
  by (simp add: ChppciServer_ctor_def initORBandServers_def HPPCI_CATCH_def good_env_def
      initial_world_def log_call_def initMapSteeringMethodFactory_def
      initMapDistanceFunctionFactory_def cpp_new_def map_subscript_def
      example_server_def example_world_def example_private_def Let_def fun_eq_iff)

subsection \<open>Construction on demand\<close>

lemma createSteeringMethod_absent:
  "inName \<notin> fst ` set (attMapSteeringMethodFactory this) \<Longrightarrow>
   createSteeringMethod mk this w inName inOriented = Normal (None, this)"
  by (simp add: createSteeringMethod_def steeringMethodFactoryAlreadySet_iff)

lemma createDistanceFunction_absent:
  "inName \<notin> fst ` set (attMapDistanceFunctionFactory this) \<Longrightarrow>
   createDistanceFunction mk this w inName inOriented = Normal (None, this)"
  by (simp add: createDistanceFunction_def distanceFactoryAlreadySet_iff)

lemma map_of_Some_fst: "map_of m k = Some v \<Longrightarrow> k \<in> fst ` set m"
  by (metis domI dom_map_of_conv_image_fst)

lemma createSteeringMethod_present:
  assumes "map_of (attMapSteeringMethodFactory this) inName = Some (Ptr a)"
    and "heap w a = Some (SteeringFactory f)"
  shows "createSteeringMethod mk this w inName inOriented =
           (case mk f inOriented of Returns r \<Rightarrow> Normal (r, this) | Throws \<Rightarrow> Raised this)"
  using assms map_of_Some_fst [OF assms(1)]
  by (simp add: createSteeringMethod_def steeringMethodFactoryAlreadySet_iff
      map_subscript_present referent_map_of)

lemma createDistanceFunction_present:
  assumes "map_of (attMapDistanceFunctionFactory this) inName = Some (Ptr a)"
    and "heap w a = Some (DistanceFactory f)"
  shows "createDistanceFunction mk this w inName inOriented =
           (case mk f inOriented of Returns r \<Rightarrow> Normal (r, this) | Throws \<Rightarrow> Raised this)"
  using assms map_of_Some_fst [OF assms(1)]
  by (simp add: createDistanceFunction_def distanceFactoryAlreadySet_iff
      map_subscript_present referent_map_of)

text \<open>
  C2. In either registry, construction on demand under a name that is not registered
  returns the empty result and raises nothing; under a name whose entry designates a live
  factory it does what the factory's make function does for the same flag: it returns
  what that returns and lets escape what that throws.
\<close>

theorem construct_on_demand_spec:
  "(inName \<notin> fst ` set (attMapSteeringMethodFactory this) \<longrightarrow>
      createSteeringMethod mk this w inName inOriented = Normal (None, this)) \<and>
   (map_of (attMapSteeringMethodFactory this) inName = Some (Ptr a) \<and>
    heap w a = Some (SteeringFactory f) \<longrightarrow>
      createSteeringMethod mk this w inName inOriented =
        (case mk f inOriented of Returns r \<Rightarrow> Normal (r, this) | Throws \<Rightarrow> Raised this)) \<and>
   (inName \<notin> fst ` set (attMapDistanceFunctionFactory this) \<longrightarrow>
      createDistanceFunction mk' this w inName inOriented = Normal (None, this)) \<and>
   (map_of (attMapDistanceFunctionFactory this) inName = Some (Ptr a') \<and>
    heap w a' = Some (DistanceFactory f') \<longrightarrow>
      createDistanceFunction mk' this w inName inOriented =
        (case mk' f' inOriented of Returns r \<Rightarrow> Normal (r, this) | Throws \<Rightarrow> Raised this))"
proof (intro conjI impI)
  assume "inName \<notin> fst ` set (attMapSteeringMethodFactory this)"
  then show "createSteeringMethod mk this w inName inOriented = Normal (None, this)"
    by (rule createSteeringMethod_absent)
next
  assume "map_of (attMapSteeringMethodFactory this) inName = Some (Ptr a) \<and>
    heap w a = Some (SteeringFactory f)"
  then show "createSteeringMethod mk this w inName inOriented =
        (case mk f inOriented of Returns r \<Rightarrow> Normal (r, this) | Throws \<Rightarrow> Raised this)"
    by (simp add: createSteeringMethod_present)
next
  assume "inName \<notin> fst ` set (attMapDistanceFunctionFactory this)"
  then show "createDistanceFunction mk' this w inName inOriented = Normal (None, this)"
    by (rule createDistanceFunction_absent)
next
  assume "map_of (attMapDistanceFunctionFactory this) inName = Some (Ptr a') \<and>
    heap w a' = Some (DistanceFactory f')"
  then show "createDistanceFunction mk' this w inName inOriented =
        (case mk' f' inOriented of Returns r \<Rightarrow> Normal (r, this) | Throws \<Rightarrow> Raised this)"
    by (simp add: createDistanceFunction_present)
qed

theorem construct_on_demand_spec_witness:
  "''rrt'' \<notin> fst ` set (attMapSteeringMethodFactory example_server) \<and>
   createSteeringMethod example_makeSteeringMethod example_server example_world ''rrt'' True
     = Normal (None, example_server) \<and>
   ''rrt'' \<notin> fst ` set (attMapDistanceFunctionFactory example_server) \<and>
   createDistanceFunction example_makeDistance example_server example_world ''rrt'' True
     = Normal (None, example_server) \<and>
   map_of (attMapSteeringMethodFactory example_server) ''linear'' = Some (Ptr 0) \<and>
   heap example_world 0 = Some (SteeringFactory CkwsPlusLinearSteeringMethodFactory) \<and>
   createSteeringMethod example_makeSteeringMethod example_server example_world ''linear'' False
     = Normal (Some 10, example_server) \<and>
   map_of (attMapDistanceFunctionFactory example_server) ''rs'' = Some (Ptr 4) \<and>
   heap example_world 4 = Some (DistanceFactory (CkwsPlusRSDistanceFactory 1)) \<and>
   createDistanceFunction example_makeDistance example_server example_world ''rs'' True
     = Normal (Some 51, example_server)"
  using construct_on_demand_spec [of "''rrt''" example_server example_makeSteeringMethod
      example_world True 0 CkwsPlusLinearSteeringMethodFactory example_makeDistance 4
      "CkwsPlusRSDistanceFactory 1"]
    construct_on_demand_spec [of "''linear''" example_server example_makeSteeringMethod
      example_world False 0 CkwsPlusLinearSteeringMethodFactory example_makeDistance 4
      "CkwsPlusRSDistanceFactory 1"]
    construct_on_demand_spec [of "''rs''" example_server example_makeSteeringMethod
      example_world True 1 "CkwsPlusRSSteeringMethodFactory 1" example_makeDistance 4
      "CkwsPlusRSDistanceFactory 1"]
  by (simp add: example_server_def example_world_def example_makeSteeringMethod_def
      example_makeDistance_def)

lemma createSteeringMethod_frame:
  "createSteeringMethod mk this w inName inOriented = Normal (r, this') \<or>
   createSteeringMethod mk this w inName inOriented = Raised this' \<Longrightarrow> this' = this"
  by (auto simp: createSteeringMethod_def steeringMethodFactoryAlreadySet_iff
      map_subscript_present
      split: if_splits ptr.splits option.splits heap_obj.splits outcome.splits)

lemma createDistanceFunction_frame:
  "createDistanceFunction mk this w inName inOriented = Normal (r, this') \<or>
   createDistanceFunction mk this w inName inOriented = Raised this' \<Longrightarrow> this' = this"
  by (auto simp: createDistanceFunction_def distanceFactoryAlreadySet_iff
      map_subscript_present
      split: if_splits ptr.splits option.splits heap_obj.splits outcome.splits)

text \<open>
  C10. Construction on demand leaves the object, and so both registries, as they were,
  whether it returns or the factory throws; under an unknown name it returns and nothing is
  inserted.
\<close>

theorem construct_on_demand_frame:
  "(createSteeringMethod mk this w inName inOriented = Normal (r, this') \<longrightarrow> this' = this) \<and>
   (createSteeringMethod mk this w inName inOriented = Raised this' \<longrightarrow> this' = this) \<and>
   (inName \<notin> fst ` set (attMapSteeringMethodFactory this) \<longrightarrow>
      (\<exists>x. createSteeringMethod mk this w inName inOriented = Normal (x, this))) \<and>
   (createDistanceFunction mk' this w inName inOriented = Normal (r', this'') \<longrightarrow> this'' = this) \<and>
   (createDistanceFunction mk' this w inName inOriented = Raised this'' \<longrightarrow> this'' = this) \<and>
   (inName \<notin> fst ` set (attMapDistanceFunctionFactory this) \<longrightarrow>
      (\<exists>x. createDistanceFunction mk' this w inName inOriented = Normal (x, this)))"
  using createSteeringMethod_frame [of mk this w inName inOriented r this']
    createDistanceFunction_frame [of mk' this w inName inOriented r' this'']
    createSteeringMethod_absent [of inName this mk w inOriented]
    createDistanceFunction_absent [of inName this mk' w inOriented]
  by blast

theorem construct_on_demand_frame_witness:
  "createSteeringMethod example_makeSteeringMethod extended_server extended_world ''linear'' True
     = Normal (Some 11, extended_server) \<and>
   createSteeringMethod example_makeSteeringMethod extended_server extended_world ''mine'' True
     = Raised extended_server \<and>
   ''rrt'' \<notin> fst ` set (attMapSteeringMethodFactory extended_server) \<and>
   createSteeringMethod example_makeSteeringMethod extended_server extended_world ''rrt'' True
     = Normal (None, extended_server) \<and>
   createDistanceFunction example_makeDistance extended_server extended_world ''flic'' False
     = Normal (Some 60, extended_server) \<and>
   ''mine'' \<notin> fst ` set (attMapDistanceFunctionFactory extended_server) \<and>
   createDistanceFunction example_makeDistance extended_server extended_world ''mine'' False
     = Normal (None, extended_server)"
  using construct_on_demand_frame [of example_makeSteeringMethod extended_server extended_world
      "''linear''" True "Some 11" extended_server example_makeDistance None extended_server]
    construct_on_demand_frame [of example_makeSteeringMethod extended_server extended_world
      "''mine''" True None extended_server example_makeDistance None extended_server]
    construct_on_demand_frame [of example_makeSteeringMethod extended_server extended_world
      "''rrt''" True None extended_server example_makeDistance None extended_server]
    construct_on_demand_frame [of example_makeSteeringMethod extended_server extended_world
      "''flic''" False None extended_server example_makeDistance "Some 60" extended_server]
  by (simp add: createSteeringMethod_def createDistanceFunction_def
      steeringMethodFactoryAlreadySet_def distanceFactoryAlreadySet_def map_subscript_def
      extended_server_def extended_world_def example_server_def example_world_def
      example_makeSteeringMethod_def example_makeDistance_def)

subsection \<open>Construction\<close>

lemma attPrivate_update_same:
  "(this = this\<lparr>attPrivate := x\<rparr>) \<longleftrightarrow> attPrivate this = x"
  by (cases this) auto

lemma log_call_trace_update:
  "log_call c (w\<lparr>trace := t\<rparr>) = w\<lparr>trace := t @ [c]\<rparr>"
  by (simp add: log_call_def)

lemma log_call_start: "log_call c w = w\<lparr>trace := trace w @ [c]\<rparr>"
  by (simp add: log_call_def)

lemma initORBandServers_shape:
  assumes "attPrivate this = Some p"
  shows "\<exists>status p' calls. initORBandServers env argv this w =
           Normal (status, this\<lparr>attPrivate := Some p'\<rparr>, w\<lparr>trace := trace w @ calls\<rparr>)"
  using assms
  by (auto simp: initORBandServers_def HPPCI_CATCH_def Let_def
      log_call_start [of "ORB_init argv" w] log_call_trace_update attPrivate_update_same
      split: outcome.splits)

lemma ctor_shape:
  "\<exists>p calls. ChppciServer_ctor env inHppPlanner argv this_addr w =
     Normal
      (\<lparr>hppPlanner = inHppPlanner, attPrivate = Some p,
        attMapSteeringMethodFactory =
          [(''flic'', Ptr (next_addr w + 2)), (''linear'', Ptr (next_addr w)),
           (''rs'', Ptr (next_addr w + 1))],
        attMapDistanceFunctionFactory =
          [(''flic'', Ptr (next_addr w + 5)), (''linear'', Ptr (next_addr w + 3)),
           (''rs'', Ptr (next_addr w + 4))]\<rparr>,
       w\<lparr>s_hppciServer := Ptr this_addr,
         heap := (heap w)
           (next_addr w \<mapsto> SteeringFactory CkwsPlusLinearSteeringMethodFactory,
            next_addr w + 1 \<mapsto> SteeringFactory (CkwsPlusRSSteeringMethodFactory 1),
            next_addr w + 2 \<mapsto> SteeringFactory CkwsPlusFlicSteeringMethodFactory,
            next_addr w + 3 \<mapsto> DistanceFactory CkwsPlusLinearDistanceFactory,
            next_addr w + 4 \<mapsto> DistanceFactory (CkwsPlusRSDistanceFactory 1),
            next_addr w + 5 \<mapsto> DistanceFactory CkwsPlusApproxFlicDistanceFactory),
         next_addr := next_addr w + 6,
         trace := trace w @ calls\<rparr>)"
proof -
  let ?this1 = "\<lparr>hppPlanner = inHppPlanner, attPrivate = Some \<lparr>orb = nil, poa = nil\<rparr>,
                  attMapSteeringMethodFactory = [], attMapDistanceFunctionFactory = []\<rparr>"
  let ?w1 = "w\<lparr>s_hppciServer := Ptr this_addr\<rparr>"
  obtain status p' calls where init:
    "initORBandServers env argv ?this1 ?w1 =
       Normal (status, ?this1\<lparr>attPrivate := Some p'\<rparr>, ?w1\<lparr>trace := trace ?w1 @ calls\<rparr>)"
    using initORBandServers_shape [of ?this1 "\<lparr>orb = nil, poa = nil\<rparr>" env argv ?w1]
    by auto
  show ?thesis
    by (rule exI [of _ p'], rule exI [of _ calls])
      (simp add: ChppciServer_ctor_def init initMapSteeringMethodFactory_def
        initMapDistanceFunctionFactory_def cpp_new_def map_subscript_def eval_nat_numeral)
qed

lemma ctor_maps:
  "\<exists>this w'. ChppciServer_ctor env inHppPlanner argv this_addr w = Normal (this, w') \<and>
     attMapSteeringMethodFactory this =
          [(''flic'', Ptr (next_addr w + 2)), (''linear'', Ptr (next_addr w)),
           (''rs'', Ptr (next_addr w + 1))] \<and>
     attMapDistanceFunctionFactory this =
          [(''flic'', Ptr (next_addr w + 5)), (''linear'', Ptr (next_addr w + 3)),
           (''rs'', Ptr (next_addr w + 4))] \<and>
     hppPlanner this = inHppPlanner \<and>
     s_hppciServer w' = Ptr this_addr \<and>
     heap w' = (heap w)
           (next_addr w \<mapsto> SteeringFactory CkwsPlusLinearSteeringMethodFactory,
            next_addr w + 1 \<mapsto> SteeringFactory (CkwsPlusRSSteeringMethodFactory 1),
            next_addr w + 2 \<mapsto> SteeringFactory CkwsPlusFlicSteeringMethodFactory,
            next_addr w + 3 \<mapsto> DistanceFactory CkwsPlusLinearDistanceFactory,
            next_addr w + 4 \<mapsto> DistanceFactory (CkwsPlusRSDistanceFactory 1),
            next_addr w + 5 \<mapsto> DistanceFactory CkwsPlusApproxFlicDistanceFactory) \<and>
     next_addr w' = next_addr w + 6 \<and> released w' = released w"
proof -
  obtain p calls this w' where c:
    "ChppciServer_ctor env inHppPlanner argv this_addr w = Normal (this, w')"
    "this = \<lparr>hppPlanner = inHppPlanner, attPrivate = Some p,
        attMapSteeringMethodFactory =
          [(''flic'', Ptr (next_addr w + 2)), (''linear'', Ptr (next_addr w)),
           (''rs'', Ptr (next_addr w + 1))],
        attMapDistanceFunctionFactory =
          [(''flic'', Ptr (next_addr w + 5)), (''linear'', Ptr (next_addr w + 3)),
           (''rs'', Ptr (next_addr w + 4))]\<rparr>"
    "w' = w\<lparr>s_hppciServer := Ptr this_addr,
         heap := (heap w)
           (next_addr w \<mapsto> SteeringFactory CkwsPlusLinearSteeringMethodFactory,
            next_addr w + 1 \<mapsto> SteeringFactory (CkwsPlusRSSteeringMethodFactory 1),
            next_addr w + 2 \<mapsto> SteeringFactory CkwsPlusFlicSteeringMethodFactory,
            next_addr w + 3 \<mapsto> DistanceFactory CkwsPlusLinearDistanceFactory,
            next_addr w + 4 \<mapsto> DistanceFactory (CkwsPlusRSDistanceFactory 1),
            next_addr w + 5 \<mapsto> DistanceFactory CkwsPlusApproxFlicDistanceFactory),
         next_addr := next_addr w + 6,
         trace := trace w @ calls\<rparr>"
    using ctor_shape [of env inHppPlanner argv this_addr w] by blast
  show ?thesis
    by (rule exI [of _ this], rule exI [of _ w']) (simp add: c)
qed

text \<open>
  C3. Whatever the environment does during construction, the constructor returns, and in
  the object it leaves both registries hold the names "linear", "rs" and "flic" and no
  other name.
\<close>

theorem builtin_names_after_construction:
  "\<exists>this w'. ChppciServer_ctor env inHppPlanner argv this_addr w = Normal (this, w') \<and>
     (\<forall>n. steeringMethodFactoryAlreadySet this n = (n \<in> {''linear'', ''rs'', ''flic''})) \<and>
     (\<forall>n. distanceFactoryAlreadySet this n = (n \<in> {''linear'', ''rs'', ''flic''}))"
proof -
  obtain this w' where c:
    "ChppciServer_ctor env inHppPlanner argv this_addr w = Normal (this, w')"
    "attMapSteeringMethodFactory this =
          [(''flic'', Ptr (next_addr w + 2)), (''linear'', Ptr (next_addr w)),
           (''rs'', Ptr (next_addr w + 1))]"
    "attMapDistanceFunctionFactory this =
          [(''flic'', Ptr (next_addr w + 5)), (''linear'', Ptr (next_addr w + 3)),
           (''rs'', Ptr (next_addr w + 4))]"
    using ctor_maps [of env inHppPlanner argv this_addr w] by blast
  have "steeringMethodFactoryAlreadySet this n = (n \<in> {''linear'', ''rs'', ''flic''})" for n
    unfolding steeringMethodFactoryAlreadySet_iff c by auto
  moreover
  have "distanceFactoryAlreadySet this n = (n \<in> {''linear'', ''rs'', ''flic''})" for n
    unfolding distanceFactoryAlreadySet_iff c by auto
  ultimately show ?thesis
    using c(1) by blast
qed

theorem builtin_names_after_construction_witness:
  "steeringMethodFactoryAlreadySet example_server ''linear'' \<and>
   steeringMethodFactoryAlreadySet example_server ''rs'' \<and>
   steeringMethodFactoryAlreadySet example_server ''flic'' \<and>
   \<not> steeringMethodFactoryAlreadySet example_server ''rrt'' \<and>
   \<not> steeringMethodFactoryAlreadySet example_server [] \<and>
   distanceFactoryAlreadySet example_server ''linear'' \<and>
   distanceFactoryAlreadySet example_server ''rs'' \<and>
   distanceFactoryAlreadySet example_server ''flic'' \<and>
   \<not> distanceFactoryAlreadySet example_server ''Linear''"
  using builtin_names_after_construction [of good_env "Ptr 100" "[]" 50 initial_world]
  unfolding ctor_example by simp

text \<open>
  C9. The constructor does not look at the status of \<open>initORBandServers\<close>: in every
  environment, those where a step of the bootstrap fails included, it returns, the accessor
  gives the new instance and both registries hold the three built-in names; and what the
  caller can see of the result (the planner, the registries, the heap, the accessor) is the
  same in any other environment, so nothing tells the caller that the bootstrap failed.
\<close>

theorem constructor_ignores_bootstrap_status:
  "\<exists>this w'. ChppciServer_ctor env inHppPlanner argv this_addr w = Normal (this, w') \<and>
     getInstance w' = Ptr this_addr \<and>
     fst ` set (attMapSteeringMethodFactory this) = {''linear'', ''rs'', ''flic''} \<and>
     fst ` set (attMapDistanceFunctionFactory this) = {''linear'', ''rs'', ''flic''} \<and>
     (\<forall>env'. \<exists>this'' w''.
        ChppciServer_ctor env' inHppPlanner argv this_addr w = Normal (this'', w'') \<and>
        hppPlanner this'' = hppPlanner this \<and>
        attMapSteeringMethodFactory this'' = attMapSteeringMethodFactory this \<and>
        attMapDistanceFunctionFactory this'' = attMapDistanceFunctionFactory this \<and>
        getInstance w'' = getInstance w' \<and> heap w'' = heap w' \<and>
        next_addr w'' = next_addr w' \<and> released w'' = released w')"
proof -
  obtain this w' where c:
    "ChppciServer_ctor env inHppPlanner argv this_addr w = Normal (this, w')"
    "attMapSteeringMethodFactory this =
          [(''flic'', Ptr (next_addr w + 2)), (''linear'', Ptr (next_addr w)),
           (''rs'', Ptr (next_addr w + 1))]"
    "attMapDistanceFunctionFactory this =
          [(''flic'', Ptr (next_addr w + 5)), (''linear'', Ptr (next_addr w + 3)),
           (''rs'', Ptr (next_addr w + 4))]"
    "hppPlanner this = inHppPlanner"
    "s_hppciServer w' = Ptr this_addr"
    "heap w' = (heap w)
           (next_addr w \<mapsto> SteeringFactory CkwsPlusLinearSteeringMethodFactory,
            next_addr w + 1 \<mapsto> SteeringFactory (CkwsPlusRSSteeringMethodFactory 1),
            next_addr w + 2 \<mapsto> SteeringFactory CkwsPlusFlicSteeringMethodFactory,
            next_addr w + 3 \<mapsto> DistanceFactory CkwsPlusLinearDistanceFactory,
            next_addr w + 4 \<mapsto> DistanceFactory (CkwsPlusRSDistanceFactory 1),
            next_addr w + 5 \<mapsto> DistanceFactory CkwsPlusApproxFlicDistanceFactory)"
    "next_addr w' = next_addr w + 6" "released w' = released w"
    using ctor_maps [of env inHppPlanner argv this_addr w] by blast
  have other: "\<exists>this'' w''.
        ChppciServer_ctor env' inHppPlanner argv this_addr w = Normal (this'', w'') \<and>
        hppPlanner this'' = hppPlanner this \<and>
        attMapSteeringMethodFactory this'' = attMapSteeringMethodFactory this \<and>
        attMapDistanceFunctionFactory this'' = attMapDistanceFunctionFactory this \<and>
        getInstance w'' = getInstance w' \<and> heap w'' = heap w' \<and>
        next_addr w'' = next_addr w' \<and> released w'' = released w'" for env'
    using ctor_maps [of env' inHppPlanner argv this_addr w]
    unfolding c getInstance_def by blast
  have names:
    "fst ` set (attMapSteeringMethodFactory this) = {''linear'', ''rs'', ''flic''}"
    "fst ` set (attMapDistanceFunctionFactory this) = {''linear'', ''rs'', ''flic''}"
    unfolding c by auto
  show ?thesis
    using c(1) c(5) names other unfolding getInstance_def by blast
qed

lemma initORBandServers_failing:
  "initORBandServers failing_env []
     \<lparr>hppPlanner = Ptr 100, attPrivate = Some \<lparr>orb = nil, poa = nil\<rparr>,
      attMapSteeringMethodFactory = [], attMapDistanceFunctionFactory = []\<rparr>
     (initial_world\<lparr>s_hppciServer := Ptr 50\<rparr>) =
   Normal (KD_ERROR,
     \<lparr>hppPlanner = Ptr 100, attPrivate = Some \<lparr>orb = nil, poa = nil\<rparr>,
      attMapSteeringMethodFactory = [], attMapDistanceFunctionFactory = []\<rparr>,
     initial_world\<lparr>s_hppciServer := Ptr 50, trace := [ORB_init []]\<rparr>)"
  by (simp add: initORBandServers_def failing_env_def good_env_def HPPCI_CATCH_def
      log_call_def initial_world_def)

lemma ctor_failing:
  "ChppciServer_ctor failing_env (Ptr 100) [] 50 initial_world =
     Normal (example_server\<lparr>attPrivate := Some \<lparr>orb = nil, poa = nil\<rparr>\<rparr>,
             example_world\<lparr>trace := [ORB_init []]\<rparr>)"
  by (simp add: ChppciServer_ctor_def initORBandServers_def HPPCI_CATCH_def failing_env_def
      good_env_def initial_world_def log_call_def initMapSteeringMethodFactory_def
      initMapDistanceFunctionFactory_def cpp_new_def map_subscript_def
      example_server_def example_world_def example_private_def Let_def fun_eq_iff)

theorem constructor_ignores_bootstrap_status_witness:
  "ChppciServer_ctor failing_env (Ptr 100) [] 50 initial_world =
     Normal (example_server\<lparr>attPrivate := Some \<lparr>orb = nil, poa = nil\<rparr>\<rparr>,
             example_world\<lparr>trace := [ORB_init []]\<rparr>) \<and>
   getInstance (example_world\<lparr>trace := [ORB_init []]\<rparr>) = Ptr 50 \<and>
   fst ` set (attMapSteeringMethodFactory example_server) = {''linear'', ''rs'', ''flic''} \<and>
   fst ` set (attMapDistanceFunctionFactory example_server) = {''linear'', ''rs'', ''flic''}"
  using constructor_ignores_bootstrap_status [of failing_env "Ptr 100" "[]" 50 initial_world]
  unfolding ctor_failing by simp

subsection \<open>Binding\<close>

text \<open>
  Case analysis along the body of \<open>startCorbaServer\<close>: one case for each \<open>try\<close> step that
  throws, one for each test that fails, and the case where all succeed.
\<close>

lemma HPPCI_CATCH_cases:
  assumes "tried = Throws \<Longrightarrow> case ret of (st, w') \<Rightarrow> Q st w'"
    and "\<And>x. tried = Returns x \<Longrightarrow> case continue x of (st, w') \<Rightarrow> Q st w'"
  shows "case HPPCI_CATCH tried ret continue of (st, w') \<Rightarrow> Q st w'"
  using assms by (cases tried) (simp_all add: HPPCI_CATCH_def)

lemma if_cases:
  assumes "c \<Longrightarrow> case a of (st, w') \<Rightarrow> Q st w'"
    and "\<not> c \<Longrightarrow> case b of (st, w') \<Rightarrow> Q (st :: ktStatus) (w' :: world)"
  shows "case (if c then a else b) of (st, w') \<Rightarrow> Q st w'"
  using assms by simp

lemma trace_log_call [simp]: "trace (log_call c w) = trace w @ [c]"
  by (simp add: log_call_def)

lemma activations_append [simp]: "activations (xs @ ys) = activations xs @ activations ys"
  by (induction xs) (auto split: call.splits)

lemma bindings_append [simp]: "bindings (xs @ ys) = bindings xs @ bindings ys"
  by (induction xs) (auto split: call.splits)

lemma startCorbaServer_Normal:
  assumes "attPrivate this = Some p"
  shows "\<exists>r. startCorbaServer env this w = Normal r"
  using assms by (simp add: startCorbaServer_def)

lemma startCorbaServer_frame:
  assumes "attPrivate this = Some p"
    and "startCorbaServer env this w = Normal (st, w')"
  shows "w' = w\<lparr>trace := trace w @ calls_since w w'\<rparr>"
proof -
  have "case (st, w') of (st, w') \<Rightarrow> w' = w\<lparr>trace := trace w @ calls_since w w'\<rparr>"
    using assms(2) unfolding startCorbaServer_def assms(1) option.case result.inject Let_def
    apply (elim subst)
    apply (intro HPPCI_CATCH_cases if_cases)
    apply (simp_all add: log_call_def calls_since_def)
    done
  then show ?thesis by simp
qed

text \<open>
  C5. If context creation fails, or the binding of the robot, the obstacle or the problem
  servant fails (the call returns false or throws), then \<open>startCorbaServer\<close> returns
  \<open>KD_ERROR\<close>, the adapter manager is not asked to activate, so a coordinator that was not
  serving is not serving afterwards, and the bindings after the failed step are not
  attempted: none when context creation fails, at most the robot's when the robot's
  fails, at most the robot's and the obstacle's when the obstacle's fails.
\<close>

theorem binding_failure_aborts:
  assumes "attPrivate this = Some p"
    and "context_fails env \<or> binding_fails env robotServant ''Robot'' \<or>
         binding_fails env obstacleServant ''Obstacle'' \<or>
         binding_fails env problemServant ''Problem''"
  shows "\<exists>w'. startCorbaServer env this w = Normal (KD_ERROR, w') \<and>
           activations (calls_since w w') = [] \<and>
           (serving w' \<longleftrightarrow> serving w) \<and>
           (context_fails env \<longrightarrow> bindings (calls_since w w') = []) \<and>
           (binding_fails env robotServant ''Robot'' \<longrightarrow>
              prefix (map snd (bindings (calls_since w w')))
                [[\<lparr>id_ = ''Robot'', kind = ''Object''\<rparr>]]) \<and>
           (binding_fails env obstacleServant ''Obstacle'' \<longrightarrow>
              prefix (map snd (bindings (calls_since w w')))
                [[\<lparr>id_ = ''Robot'', kind = ''Object''\<rparr>],
                 [\<lparr>id_ = ''Obstacle'', kind = ''Object''\<rparr>]])"
proof -
  obtain st w' where r: "startCorbaServer env this w = Normal (st, w')"
    using startCorbaServer_Normal [OF assms(1), of env w] by force
  have "case (st, w') of (st, w') \<Rightarrow>
          (context_fails env \<or> binding_fails env robotServant ''Robot'' \<or>
           binding_fails env obstacleServant ''Obstacle'' \<or>
           binding_fails env problemServant ''Problem'' \<longrightarrow>
           st = KD_ERROR \<and> activations (calls_since w w') = [] \<and>
           (serving w' \<longleftrightarrow> serving w) \<and>
           (context_fails env \<longrightarrow> bindings (calls_since w w') = []) \<and>
           (binding_fails env robotServant ''Robot'' \<longrightarrow>
              prefix (map snd (bindings (calls_since w w')))
                [[\<lparr>id_ = ''Robot'', kind = ''Object''\<rparr>]]) \<and>
           (binding_fails env obstacleServant ''Obstacle'' \<longrightarrow>
              prefix (map snd (bindings (calls_since w w')))
                [[\<lparr>id_ = ''Robot'', kind = ''Object''\<rparr>],
                 [\<lparr>id_ = ''Obstacle'', kind = ''Object''\<rparr>]]))"
    using r unfolding startCorbaServer_def assms(1) option.case result.inject Let_def
    apply (elim subst)
    apply (intro HPPCI_CATCH_cases if_cases)
    apply (simp_all add: context_fails_def binding_fails_def calls_since_def serving_def)
    done
  with assms(2) r show ?thesis by simp
qed

text \<open>
  C6. The bindings that \<open>startCorbaServer\<close> attempts are, in this order, the robot
  servant's reference under the one-segment name with id "Robot", the obstacle servant's
  under "Obstacle" and the problem servant's under "Problem", each of kind "Object": the
  attempted bindings are a prefix of this list, and the whole list when the status is
  \<open>KD_OK\<close>. When a reference cannot be obtained nothing is bound.
\<close>

theorem bound_names:
  assumes "attPrivate this = Some p"
  shows "\<exists>st w'. startCorbaServer env this w = Normal (st, w') \<and>
           (\<forall>robotObj obstacleObj problemObj.
              env_servant_this env robotServant = Returns robotObj \<and>
              env_servant_this env obstacleServant = Returns obstacleObj \<and>
              env_servant_this env problemServant = Returns problemObj \<longrightarrow>
              prefix (bindings (calls_since w w'))
                [(robotObj, [\<lparr>id_ = ''Robot'', kind = ''Object''\<rparr>]),
                 (obstacleObj, [\<lparr>id_ = ''Obstacle'', kind = ''Object''\<rparr>]),
                 (problemObj, [\<lparr>id_ = ''Problem'', kind = ''Object''\<rparr>])] \<and>
              (st = KD_OK \<longrightarrow>
                 bindings (calls_since w w') =
                   [(robotObj, [\<lparr>id_ = ''Robot'', kind = ''Object''\<rparr>]),
                    (obstacleObj, [\<lparr>id_ = ''Obstacle'', kind = ''Object''\<rparr>]),
                    (problemObj, [\<lparr>id_ = ''Problem'', kind = ''Object''\<rparr>])])) \<and>
           (env_servant_this env robotServant = Throws \<or>
            env_servant_this env obstacleServant = Throws \<or>
            env_servant_this env problemServant = Throws \<longrightarrow>
              bindings (calls_since w w') = [] \<and> st = KD_ERROR)"
proof -
  obtain st w' where r: "startCorbaServer env this w = Normal (st, w')"
    using startCorbaServer_Normal [OF assms(1), of env w] by force
  have "case (st, w') of (st, w') \<Rightarrow>
           (\<forall>robotObj obstacleObj problemObj.
              env_servant_this env robotServant = Returns robotObj \<and>
              env_servant_this env obstacleServant = Returns obstacleObj \<and>
              env_servant_this env problemServant = Returns problemObj \<longrightarrow>
              prefix (bindings (calls_since w w'))
                [(robotObj, [\<lparr>id_ = ''Robot'', kind = ''Object''\<rparr>]),
                 (obstacleObj, [\<lparr>id_ = ''Obstacle'', kind = ''Object''\<rparr>]),
                 (problemObj, [\<lparr>id_ = ''Problem'', kind = ''Object''\<rparr>])] \<and>
              (st = KD_OK \<longrightarrow>
                 bindings (calls_since w w') =
                   [(robotObj, [\<lparr>id_ = ''Robot'', kind = ''Object''\<rparr>]),
                    (obstacleObj, [\<lparr>id_ = ''Obstacle'', kind = ''Object''\<rparr>]),
                    (problemObj, [\<lparr>id_ = ''Problem'', kind = ''Object''\<rparr>])])) \<and>
           (env_servant_this env robotServant = Throws \<or>
            env_servant_this env obstacleServant = Throws \<or>
            env_servant_this env problemServant = Throws \<longrightarrow>
              bindings (calls_since w w') = [] \<and> st = KD_ERROR)"
    using r unfolding startCorbaServer_def assms(1) option.case result.inject Let_def
    apply (elim subst)
    apply (intro HPPCI_CATCH_cases if_cases)
    apply (simp_all add: calls_since_def)
    done
  with r show ?thesis by simp
qed

text \<open>The model run on the example object.\<close>

lemma start_no_context:
  "startCorbaServer no_context_env example_server example_world =
     Normal (KD_ERROR, example_world\<lparr>trace := trace example_world @
       [servant_this robotServant, servant_this obstacleServant, servant_this problemServant,
        createHppContext]\<rparr>)"
  by (simp add: startCorbaServer_def HPPCI_CATCH_def no_context_env_def good_env_def
      example_server_def log_call_def)

lemma start_obstacle_refused:
  "startCorbaServer obstacle_refused_env example_server example_world =
     Normal (KD_ERROR, example_world\<lparr>trace := trace example_world @
       [servant_this robotServant, servant_this obstacleServant, servant_this problemServant,
        createHppContext,
        bindObjectToName (Objref 10) [\<lparr>id_ = ''Robot'', kind = ''Object''\<rparr>],
        servant_remove_ref robotServant,
        bindObjectToName (Objref 11) [\<lparr>id_ = ''Obstacle'', kind = ''Object''\<rparr>]]\<rparr>)"
  by (simp add: startCorbaServer_def HPPCI_CATCH_def obstacle_refused_env_def good_env_def
      example_server_def log_call_def)

lemma start_good:
  "startCorbaServer good_env example_server example_world =
     Normal (KD_OK, example_world\<lparr>trace := trace example_world @
       [servant_this robotServant, servant_this obstacleServant, servant_this problemServant,
        createHppContext,
        bindObjectToName (Objref 10) [\<lparr>id_ = ''Robot'', kind = ''Object''\<rparr>],
        servant_remove_ref robotServant,
        bindObjectToName (Objref 11) [\<lparr>id_ = ''Obstacle'', kind = ''Object''\<rparr>],
        servant_remove_ref obstacleServant,
        bindObjectToName (Objref 12) [\<lparr>id_ = ''Problem'', kind = ''Object''\<rparr>],
        servant_remove_ref problemServant,
        the_POAManager (Objref 4), POAManager_activate (Objref 5)]\<rparr>)"
  by (simp add: startCorbaServer_def HPPCI_CATCH_def good_env_def
      example_server_def example_private_def log_call_def)

theorem binding_failure_aborts_witness:
  "attPrivate example_server = Some example_private \<and>
   context_fails no_context_env \<and>
   binding_fails obstacle_refused_env obstacleServant ''Obstacle'' \<and>
   startCorbaServer no_context_env example_server example_world =
     Normal (KD_ERROR, example_world\<lparr>trace := trace example_world @
       [servant_this robotServant, servant_this obstacleServant, servant_this problemServant,
        createHppContext]\<rparr>) \<and>
   startCorbaServer obstacle_refused_env example_server example_world =
     Normal (KD_ERROR, example_world\<lparr>trace := trace example_world @
       [servant_this robotServant, servant_this obstacleServant, servant_this problemServant,
        createHppContext,
        bindObjectToName (Objref 10) [\<lparr>id_ = ''Robot'', kind = ''Object''\<rparr>],
        servant_remove_ref robotServant,
        bindObjectToName (Objref 11) [\<lparr>id_ = ''Obstacle'', kind = ''Object''\<rparr>]]\<rparr>) \<and>
   \<not> serving example_world"
  using binding_failure_aborts [of example_server example_private no_context_env example_world]
    binding_failure_aborts [of example_server example_private obstacle_refused_env example_world]
  unfolding start_no_context start_obstacle_refused
  by (simp add: example_server_def context_fails_def binding_fails_def no_context_env_def
      obstacle_refused_env_def good_env_def serving_def example_world_def)

theorem bound_names_witness:
  "attPrivate example_server = Some example_private \<and>
   (\<exists>w'. startCorbaServer good_env example_server example_world = Normal (KD_OK, w') \<and>
      bindings (calls_since example_world w') =
        [(Objref 10, [\<lparr>id_ = ''Robot'', kind = ''Object''\<rparr>]),
         (Objref 11, [\<lparr>id_ = ''Obstacle'', kind = ''Object''\<rparr>]),
         (Objref 12, [\<lparr>id_ = ''Problem'', kind = ''Object''\<rparr>])])"
  using bound_names [of example_server example_private good_env example_world]
  unfolding start_good
  by (simp add: example_server_def good_env_def)

subsection \<open>Polling\<close>

text \<open>
  C7. With the loop flag false and a usable ORB, \<open>processRequest\<close> returns 0. When no
  call is pending the world is as before; when exactly one call is pending, that call is
  performed and nothing stays pending; in every case at most one call is performed, the
  calls keep their order, and nothing else in the world changes.
\<close>

theorem polling_spec:
  assumes "attPrivate this = Some p" and "orb p \<noteq> nil"
  shows "(pending w = [] \<longrightarrow> processRequest env this w False = Normal (0, w)) \<and>
         (\<forall>r. pending w = [r] \<longrightarrow>
            processRequest env this w False =
              Normal (0, w\<lparr>pending := [], performed := performed w @ [r]\<rparr>)) \<and>
         (\<exists>w'. processRequest env this w False = Normal (0, w') \<and>
            w' = w\<lparr>pending := pending w', performed := performed w'\<rparr> \<and>
            length (performed w') \<le> length (performed w) + 1 \<and>
            performed w' @ pending w' = performed w @ pending w)"
  using assms
  by (cases "pending w")
    (simp_all add: processRequest_def work_pending_def perform_work_def)

theorem polling_spec_witness:
  "attPrivate example_server = Some example_private \<and> orb example_private \<noteq> nil \<and>
   pending example_world = [] \<and>
   processRequest good_env example_server example_world False = Normal (0, example_world) \<and>
   pending busy_world = [7] \<and>
   processRequest good_env example_server busy_world False =
     Normal (0, busy_world\<lparr>pending := [], performed := [7]\<rparr>)"
  using polling_spec [of example_server example_private example_world good_env]
    polling_spec [of example_server example_private busy_world good_env]
  by (simp add: example_server_def example_private_def example_world_def busy_world_def)

subsection \<open>Destruction\<close>

lemma s_hppciServer_delete_each [simp]:
  "s_hppciServer (delete_each m w) = s_hppciServer w"
  by (induction m w rule: delete_each.induct) (simp_all add: cpp_delete_def split: ptr.splits)

lemma dtor_clears_instance:
  "ChppciServer_dtor env this w = Normal w' \<Longrightarrow> getInstance w' = NULL"
  by (auto simp: ChppciServer_dtor_def getInstance_def destroySteeringMethodFactories_def
      Let_def split: option.splits outcome.splits)

lemma dtor_ignores_distance_registry:
  "ChppciServer_dtor env (this\<lparr>attMapDistanceFunctionFactory := m\<rparr>) w =
   ChppciServer_dtor env this w"
  by (simp add: ChppciServer_dtor_def destroySteeringMethodFactories_def Let_def
      split: option.splits outcome.splits)

text \<open>
  C4 asks that the destructor release every factory of both registries once. It calls
  \<open>destroySteeringMethodFactories\<close> and never \<open>destroyDistanceFunctionFactories\<close>: after a
  construction and a destruction in which every call succeeds, the three steering method
  factories have been released once each, and the three distance factories are still on
  the heap, released by nobody.
\<close>

theorem destructor_keeps_distance_factories:
  "ChppciServer_ctor good_env (Ptr 100) [] 50 initial_world =
     Normal (example_server, example_world) \<and>
   attMapDistanceFunctionFactory example_server =
     [(''flic'', Ptr 5), (''linear'', Ptr 3), (''rs'', Ptr 4)] \<and>
   (\<exists>w'. ChppciServer_dtor good_env example_server example_world = Normal w' \<and>
      released w' = [2, 0, 1] \<and>
      heap w' 0 = None \<and> heap w' 1 = None \<and> heap w' 2 = None \<and>
      heap w' 3 = Some (DistanceFactory CkwsPlusLinearDistanceFactory) \<and>
      heap w' 4 = Some (DistanceFactory (CkwsPlusRSDistanceFactory 1)) \<and>
      heap w' 5 = Some (DistanceFactory CkwsPlusApproxFlicDistanceFactory))"
  by (simp add: ctor_example)
    (simp add: ChppciServer_dtor_def destroySteeringMethodFactories_def cpp_delete_def
      good_env_def example_server_def example_private_def example_world_def log_call_def)

subsection \<open>The accessor along a program\<close>

lemma step_keeps_instance:
  assumes "step op w = Normal w'" and "\<not> is_Construct op" and "\<not> is_Destruct op"
  shows "s_hppciServer w' = s_hppciServer w"
proof (cases op)
  case (StartCorbaServer env this)
  with assms(1) obtain st where r: "startCorbaServer env this w = Normal (st, w')"
    by (auto simp: then_world_def split: result.splits)
  then obtain p where "attPrivate this = Some p"
    by (auto simp: startCorbaServer_def split: option.splits)
  from startCorbaServer_frame [OF this r] show ?thesis
    by (metis world.select_convs(1) world.surjective world.update_convs(5))
next
  case (ProcessRequest env this loop)
  with assms(1) show ?thesis
    by (auto simp: then_world_def processRequest_def work_pending_def perform_work_def
        log_call_def Let_def
        split: result.splits option.splits outcome.splits if_splits list.splits)
qed (use assms in simp_all)

lemma step_Construct_instance:
  "step (Construct env inHppPlanner argv this_addr) w = Normal w' \<Longrightarrow>
   s_hppciServer w' = Ptr this_addr"
  using ctor_maps [of env inHppPlanner argv this_addr w]
  by (auto simp: then_world_def)

lemma step_Destruct_instance:
  "step (Destruct env this) w = Normal w' \<Longrightarrow> s_hppciServer w' = NULL"
  using dtor_clears_instance [of env this w w'] by (simp add: getInstance_def)

lemma run_append:
  "run (xs @ ys) w =
     (case run xs w of Normal w1 \<Rightarrow> run ys w1 | Raised w1 \<Rightarrow> Raised w1
      | Undefined \<Rightarrow> Undefined | Blocked \<Rightarrow> Blocked)"
  by (induction xs arbitrary: w) (auto split: result.splits)

lemma run_keeps_instance:
  "run ops w = Normal w' \<Longrightarrow> \<forall>op\<in>set ops. \<not> is_Construct op \<and> \<not> is_Destruct op \<Longrightarrow>
   s_hppciServer w' = s_hppciServer w"
proof (induction ops arbitrary: w)
  case Nil
  then show ?case by simp
next
  case (Cons op ops)
  from Cons.prems(1) obtain w1 where s: "step op w = Normal w1" and r: "run ops w1 = Normal w'"
    by (auto split: result.splits)
  from Cons.IH [OF r] Cons.prems(2) step_keeps_instance [OF s] show ?case by simp
qed

lemma run_keeps_absent:
  "run ops w = Normal w' \<Longrightarrow> \<forall>op\<in>set ops. \<not> is_Construct op \<Longrightarrow>
   s_hppciServer w = NULL \<Longrightarrow> s_hppciServer w' = NULL"
proof (induction ops arbitrary: w)
  case Nil
  then show ?case by simp
next
  case (Cons op ops)
  from Cons.prems(1) obtain w1 where s: "step op w = Normal w1" and r: "run ops w1 = Normal w'"
    by (auto split: result.splits)
  have "s_hppciServer w1 = NULL"
  proof (cases "is_Destruct op")
    case True
    then obtain env this where "op = Destruct env this" by (cases op) simp_all
    with s show ?thesis using step_Destruct_instance by blast
  next
    case False
    with step_keeps_instance [OF s] Cons.prems show ?thesis by simp
  qed
  with Cons.IH [OF r] Cons.prems(2) show ?case by simp
qed

text \<open>
  C8. There is one static pointer, so the accessor gives at most one instance. In a
  program whose operations all return: after a construction and until the next
  construction or destruction, the accessor gives the instance just constructed; after a
  destruction and until the next construction, it gives the null pointer; and so it does
  from the start until the first construction.
\<close>

theorem singleton_accessor:
  "(run (before @ Construct env inHppPlanner argv this_addr # after) w = Normal w' \<and>
    (\<forall>op\<in>set after. \<not> is_Construct op \<and> \<not> is_Destruct op) \<longrightarrow>
      getInstance w' = Ptr this_addr) \<and>
   (run (before @ Destruct env this # after) w = Normal w' \<and>
    (\<forall>op\<in>set after. \<not> is_Construct op) \<longrightarrow>
      getInstance w' = NULL) \<and>
   (run after initial_world = Normal w' \<and> (\<forall>op\<in>set after. \<not> is_Construct op) \<longrightarrow>
      getInstance w' = NULL)"
proof (intro conjI impI)
  assume a: "run (before @ Construct env inHppPlanner argv this_addr # after) w = Normal w' \<and>
    (\<forall>op\<in>set after. \<not> is_Construct op \<and> \<not> is_Destruct op)"
  then obtain w1 w2 where "step (Construct env inHppPlanner argv this_addr) w1 = Normal w2"
    and "run after w2 = Normal w'"
    by (auto simp: run_append split: result.splits)
  with a show "getInstance w' = Ptr this_addr"
    using run_keeps_instance step_Construct_instance by (simp add: getInstance_def)
next
  assume a: "run (before @ Destruct env this # after) w = Normal w' \<and>
    (\<forall>op\<in>set after. \<not> is_Construct op)"
  then obtain w1 w2 where "step (Destruct env this) w1 = Normal w2"
    and "run after w2 = Normal w'"
    by (auto simp: run_append split: result.splits)
  with a show "getInstance w' = NULL"
    using run_keeps_absent step_Destruct_instance by (simp add: getInstance_def)
next
  assume "run after initial_world = Normal w' \<and> (\<forall>op\<in>set after. \<not> is_Construct op)"
  then show "getInstance w' = NULL"
    using run_keeps_absent [of after initial_world w']
    by (simp add: getInstance_def initial_world_def)
qed

lemma run_example_serving:
  "run [Construct good_env (Ptr 100) [] 50, StartCorbaServer good_env example_server,
        ProcessRequest good_env example_server False] initial_world = Normal serving_world"
  by (simp add: ctor_example start_good then_world_def serving_world_def)
    (simp add: processRequest_def work_pending_def example_server_def example_private_def
      example_world_def)

lemma run_example_destroyed:
  "\<exists>w'. run [Construct good_env (Ptr 100) [] 50, StartCorbaServer good_env example_server,
        Destruct good_env example_server] initial_world = Normal w'"
  by (simp add: ctor_example start_good then_world_def)
    (simp add: ChppciServer_dtor_def good_env_def example_server_def)

theorem singleton_accessor_witness:
  "run [Construct good_env (Ptr 100) [] 50, StartCorbaServer good_env example_server,
        ProcessRequest good_env example_server False] initial_world = Normal serving_world \<and>
   getInstance serving_world = Ptr 50 \<and>
   (\<exists>w'. run [Construct good_env (Ptr 100) [] 50, StartCorbaServer good_env example_server,
        Destruct good_env example_server] initial_world = Normal w' \<and> getInstance w' = NULL)"
proof -
  obtain w' where d:
    "run [Construct good_env (Ptr 100) [] 50, StartCorbaServer good_env example_server,
          Destruct good_env example_server] initial_world = Normal w'"
    using run_example_destroyed by blast
  from singleton_accessor [of "[]" good_env "Ptr 100" "[]" 50
      "[StartCorbaServer good_env example_server, ProcessRequest good_env example_server False]"
      initial_world serving_world example_server]
    singleton_accessor [of "[Construct good_env (Ptr 100) [] 50,
        StartCorbaServer good_env example_server]" good_env "Ptr 100" "[]" 50 "[]"
      initial_world w' example_server]
    run_example_serving d
  show ?thesis by simp
qed

end
